theory Spec2Isabelle
  imports Complex_Main
begin

section \<open>Strings and numbers of the host language\<close>

text \<open>
  JavaScript strings are modelled as \<^typ>\<open>string\<close>. HTTP header names are ASCII tokens,
  so \<open>trim\<close> strips the ASCII white space characters (TAB, LF, VT, FF, CR, SPACE) and
  \<open>toLowerCase\<close> maps the letters A..Z. Numbers that the rate limiter handles (counts,
  millisecond timestamps, limits) are integral and modelled as \<^typ>\<open>int\<close>; the model
  is that of the source on the safe integers (\<open>isSafeInteger\<close> below), where JavaScript
  computes exactly and prints every digit.
\<close>

definition isWhiteSpace :: "char \<Rightarrow> bool" where
  "isWhiteSpace c = ((of_char c :: nat) \<in> set [9, 10, 11, 12, 13, 32])"

definition trim :: "string \<Rightarrow> string" where
  "trim s = rev (dropWhile isWhiteSpace (rev (dropWhile isWhiteSpace s)))"

definition lowerChar :: "char \<Rightarrow> char" where
  "lowerChar c =
     (case map_of (zip ''ABCDEFGHIJKLMNOPQRSTUVWXYZ'' ''abcdefghijklmnopqrstuvwxyz'') c of
        None \<Rightarrow> c
      | Some l \<Rightarrow> l)"

definition toLowerCase :: "string \<Rightarrow> string" where
  "toLowerCase s = map lowerChar s"

definition digitChar :: "nat \<Rightarrow> char" where
  "digitChar d = ''0123456789'' ! d"

fun digits :: "nat \<Rightarrow> string" where
  "digits n = (if n < 10 then [digitChar n] else digits (n div 10) @ [digitChar (n mod 10)])"

declare digits.simps [simp del]

text \<open>
  \<open>Number.isSafeInteger\<close>: the integers of magnitude at most \<open>2^53 - 1\<close>. On these
  JavaScript adds and subtracts exactly as long as the result is one of them, and
  \<open>Math.ceil(x / 1000)\<close> is the ceiling of the quotient.
\<close>

definition isSafeInteger :: "int \<Rightarrow> bool" where
  "isSafeInteger x = (- (2 ^ 53 - 1) \<le> x \<and> x \<le> 2 ^ 53 - 1)"

text \<open>
  \<open>Number.prototype.toString()\<close> on a safe integer: its decimal numeral. Beyond the
  safe integers JavaScript prints rounded digits, and from \<open>1e21\<close> on exponent notation
  (\<open>"1e+21"\<close>); there this function is not the source's \<open>toString\<close>, and what is
  stated below about the printed header values is stated for safe integers.
\<close>

definition toString :: "int \<Rightarrow> string" where
  "toString i = (if i < 0 then CHR ''-'' # digits (nat (- i)) else digits (nat i))"

text \<open>\<open>Math.ceil(x / 1000)\<close> on an integral \<open>x\<close>.\<close>

definition ceilDiv1000 :: "int \<Rightarrow> int" where
  "ceilDiv1000 x = - ((- x) div 1000)"

section \<open>Requests and the default key generator\<close>

text \<open>
  A request carries its header list in the order in which \<open>request.headers.entries()\<close>
  yields the pairs.
\<close>

record request =
  headers :: "(string \<times> string) list"
  url :: string

text \<open>What a function of the library or of the host may throw.\<close>

datatype error = TypeError string | Thrown string

text \<open>
  \<open>defaultKeyGenerator\<close>: of the headers whose trimmed, lower-cased name is in the list
  of the source, the value of the first one (\<open>.at(0)\<close>), and \<open>'unknown'\<close> when there is
  none.
\<close>

definition forwardingNames :: "string list" where
  "forwardingNames = [''x-forwareded-for'', ''x-real-ip'', ''forwarded'']"

definition defaultKeyGenerator :: "request \<Rightarrow> string" where
  "defaultKeyGenerator request =
     (case map snd
             (filter (\<lambda>(key, _). toLowerCase (trim key) \<in> set forwardingNames)
                     (headers request)) of
        [] \<Rightarrow> ''unknown''
      | v # _ \<Rightarrow> v)"

section \<open>The bounded counter store\<close>

text \<open>
  A store entry is the object \<open>{ count, reset }\<close> of the source.
\<close>

record entry =
  count :: int
  reset :: int

text \<open>
  Modelled from the spec: the class \<open>LRUCache\<close> of the package \<open>lru-cache\<close>, in which
  the source keeps its counters, is a dependency and not part of the repository. The
  model follows the store contract of the specification (section 4.1) and the package's
  documented behaviour under the options \<open>max\<close> and \<open>ttl\<close> that the source passes: the
  items are kept most recently used first, each with the clock reading of its last
  \<open>set\<close>; \<open>get\<close> answers \<open>undefined\<close> for a missing key and for an item older than
  \<open>ttl\<close> (which it deletes), and otherwise makes the item the most recently used one;
  \<open>set\<close> inserts or overwrites, makes the item the most recently used one, restarts
  its age, and evicts the least recently used item when a new key arrives at a full
  cache. A \<open>max\<close> of 0 means no bound on the number of items and a \<open>ttl\<close> of 0 means
  that items do not age; the constructor throws a \<open>TypeError\<close> for a negative option
  and when both are 0.
\<close>

record LRUCache =
  lru_max :: nat
  lru_ttl :: int
  lru_items :: "(string \<times> entry \<times> int) list"

definition LRUCache_new :: "int \<Rightarrow> int \<Rightarrow> error + LRUCache" where
  "LRUCache_new max_opt ttl_opt =
     (if max_opt < 0 then Inl (TypeError ''max option must be a nonnegative integer'')
      else if ttl_opt < 0 then Inl (TypeError ''ttl must be a positive integer if specified'')
      else if max_opt = 0 \<and> ttl_opt = 0
        then Inl (TypeError ''At least one of max, maxSize, or ttl is required'')
      else Inr \<lparr>lru_max = nat max_opt, lru_ttl = ttl_opt, lru_items = []\<rparr>)"

definition isStale :: "LRUCache \<Rightarrow> int \<Rightarrow> int \<Rightarrow> bool" where
  "isStale c start tick = (lru_ttl c \<noteq> 0 \<and> tick - start > lru_ttl c)"

definition removeKey :: "string \<Rightarrow> (string \<times> 'v) list \<Rightarrow> (string \<times> 'v) list" where
  "removeKey k xs = filter (\<lambda>(k', _). k' \<noteq> k) xs"

definition LRUCache_get :: "LRUCache \<Rightarrow> string \<Rightarrow> int \<Rightarrow> entry option \<times> LRUCache" where
  "LRUCache_get c k tick =
     (case map_of (lru_items c) k of
        None \<Rightarrow> (None, c)
      | Some (v, start) \<Rightarrow>
          if isStale c start tick
          then (None, c\<lparr>lru_items := removeKey k (lru_items c)\<rparr>)
          else (Some v, c\<lparr>lru_items := (k, v, start) # removeKey k (lru_items c)\<rparr>))"

definition LRUCache_set :: "LRUCache \<Rightarrow> string \<Rightarrow> entry \<Rightarrow> int \<Rightarrow> LRUCache" where
  "LRUCache_set c k v tick =
     (if map_of (lru_items c) k = None \<and> lru_max c \<noteq> 0 \<and> lru_max c \<le> length (lru_items c)
      then c\<lparr>lru_items := (k, v, tick) # butlast (lru_items c)\<rparr>
      else c\<lparr>lru_items := (k, v, tick) # removeKey k (lru_items c)\<rparr>)"

text \<open>
  \<open>class DefaultRateLimitContext\<close>: a private cache with \<open>max: maxEntries\<close> and a
  time to live of one hour; \<open>get\<close> and \<open>set\<close> delegate to it.
\<close>

record DefaultRateLimitContext =
  cache :: LRUCache

definition DefaultRateLimitContext_new :: "int \<Rightarrow> error + DefaultRateLimitContext" where
  "DefaultRateLimitContext_new maxEntries =
     (case LRUCache_new maxEntries (1 * 3600 * 1000) of
        Inl e \<Rightarrow> Inl e
      | Inr c \<Rightarrow> Inr \<lparr>cache = c\<rparr>)"

definition context_get ::
  "DefaultRateLimitContext \<Rightarrow> string \<Rightarrow> int \<Rightarrow> entry option \<times> DefaultRateLimitContext" where
  "context_get ctx key tick =
     (case LRUCache_get (cache ctx) key tick of (r, c) \<Rightarrow> (r, ctx\<lparr>cache := c\<rparr>))"

definition context_set ::
  "DefaultRateLimitContext \<Rightarrow> string \<Rightarrow> entry \<Rightarrow> int \<Rightarrow> DefaultRateLimitContext" where
  "context_set ctx key v tick = ctx\<lparr>cache := LRUCache_set (cache ctx) key v tick\<rparr>"

section \<open>The logger used on rejection\<close>

datatype LogLevel = Debug | Info | Warn | Err

text \<open>
  Of \<open>class Logger\<close> the model keeps the level filter and the sequence of messages that
  pass it; the console and file output are the host's side of it.
\<close>

record Logger =
  logLevel :: "LogLevel option"
  logged :: "(LogLevel \<times> string) list"

fun levels :: "LogLevel \<Rightarrow> nat" where
  "levels Debug = 0"
| "levels Info = 1"
| "levels Warn = 2"
| "levels Err = 3"

definition shouldLog :: "LogLevel \<Rightarrow> LogLevel \<Rightarrow> bool" where
  "shouldLog messageLevel minLevel = (levels messageLevel \<ge> levels minLevel)"

definition Logger_log :: "Logger \<Rightarrow> LogLevel \<Rightarrow> string \<Rightarrow> Logger" where
  "Logger_log lg level message =
     (if \<not> shouldLog level (case logLevel lg of None \<Rightarrow> Info | Some l \<Rightarrow> l) then lg
      else lg\<lparr>logged := logged lg @ [(level, message)]\<rparr>)"

section \<open>The rate limit plugin\<close>

type_synonym body = string

datatype errorResponse_t = Fixed body | Computed "request \<Rightarrow> error + body"

text \<open>
  \<open>interface RateLimitOptions\<close>: every field is optional. The functions supplied by the
  host may throw, so they return \<^typ>\<open>error + 'a\<close>.
\<close>

record RateLimitOptions =
  opt_maxRequests :: "int option"
  opt_duration :: "int option"
  opt_keyGenerator :: "(request \<Rightarrow> error + string) option"
  opt_errorResponse :: "errorResponse_t option"
  opt_skip :: "(request \<Rightarrow> string \<Rightarrow> error + bool) option"

text \<open>
  The constants that the closure of \<open>rateLimitPlugin\<close> binds by destructuring the
  options with their defaults, and the context it constructs.
\<close>

record plugin =
  maxRequests :: int
  duration :: int
  keyGenerator :: "request \<Rightarrow> error + string"
  errorResponse :: errorResponse_t
  skip :: "request \<Rightarrow> string \<Rightarrow> error + bool"
  initial_context :: DefaultRateLimitContext

definition orDefault :: "'a option \<Rightarrow> 'a \<Rightarrow> 'a" where
  "orDefault v d = (case v of None \<Rightarrow> d | Some x \<Rightarrow> x)"

definition rateLimitPlugin :: "RateLimitOptions \<Rightarrow> error + plugin" where
  "rateLimitPlugin options =
     (case DefaultRateLimitContext_new 10000 of
        Inl e \<Rightarrow> Inl e
      | Inr ctx \<Rightarrow>
          Inr \<lparr>maxRequests = orDefault (opt_maxRequests options) 100,
               duration = orDefault (opt_duration options) (60 * 1000),
               keyGenerator = orDefault (opt_keyGenerator options) (\<lambda>r. Inr (defaultKeyGenerator r)),
               errorResponse = orDefault (opt_errorResponse options) (Fixed ''Too many requests''),
               skip = orDefault (opt_skip options) (\<lambda>_ _. Inr False),
               initial_context = ctx\<rparr>)"

text \<open>
  What one run of the \<open>onRequest\<close> hook can change: the plugin's \<open>context\<close> (here \<open>rlContext\<close>), the response
  fields \<open>set.status\<close> and \<open>set.headers\<close>, and the logger in the host's store.
\<close>

record state =
  rlContext :: DefaultRateLimitContext
  set_status :: "int option"
  set_headers :: "string \<rightharpoonup> string"
  logger :: Logger

text \<open>
  The hook ends by throwing, by returning nothing (the request goes on to the next
  handler), or by returning the error response.
\<close>

datatype outcome = Threw error | Proceed | Respond body

text \<open>
  \<open>now\<close> is the reading of \<open>Date.now()\<close> taken after the skip check; \<open>tick\<close> is the
  reading of the cache's own clock during the synchronous \<open>get\<close> and \<open>set\<close>.
\<close>

definition onRequest :: "plugin \<Rightarrow> int \<Rightarrow> int \<Rightarrow> request \<Rightarrow> state \<Rightarrow> outcome \<times> state" where
  "onRequest p now tick req s =
     (case keyGenerator p req of
        Inl e \<Rightarrow> (Threw e, s)
      | Inr key \<Rightarrow>
         (case skip p req key of
            Inl e \<Rightarrow> (Threw e, s)
          | Inr True \<Rightarrow> (Proceed, s)
          | Inr False \<Rightarrow>
             (let resetTime = now + duration p;
                  (found, ctx1) = context_get (rlContext s) key tick;
                  entry0 = (case found of
                              None \<Rightarrow> \<lparr>count = 0, reset = resetTime\<rparr>
                            | Some e \<Rightarrow> if now > reset e then \<lparr>count = 0, reset = resetTime\<rparr> else e);
                  entry1 = entry0\<lparr>count := count entry0 + 1\<rparr>;
                  ctx2 = context_set ctx1 key entry1 tick;
                  hs = (set_headers s)
                         (''RateLimit-Limit'' \<mapsto> toString (maxRequests p),
                          ''RateLimit-Remaining'' \<mapsto> toString (max 0 (maxRequests p - count entry1)),
                          ''RateLimit-Reset'' \<mapsto> toString (ceilDiv1000 (reset entry1)));
                  s1 = s\<lparr>rlContext := ctx2, set_headers := hs\<rparr>
              in if count entry1 > maxRequests p
                 then
                   (let s2 = s1\<lparr>set_status := Some 429,
                                 set_headers := hs(''Retry-After'' \<mapsto> toString (ceilDiv1000 (duration p))),
                                 logger := Logger_log (logger s1) Warn
                                             (''Rate limit exceeded for key: '' @ key)\<rparr>
                    in case errorResponse p of
                         Computed f \<Rightarrow> (case f req of Inl e \<Rightarrow> (Threw e, s2) | Inr b \<Rightarrow> (Respond b, s2))
                       | Fixed b \<Rightarrow> (Respond b, s2))
                 else (Proceed, s1))))"

text \<open>
  The host gives every request its own \<open>set\<close> object, while the plugin's context and the
  logger live on. \<open>serve\<close> runs the hook on a sequence of requests, each with its clock
  readings, and lists the outcome and the state at the end of each run.
\<close>

fun serve :: "plugin \<Rightarrow> state \<Rightarrow> (int \<times> int \<times> request) list \<Rightarrow> (outcome \<times> state) list" where
  "serve p s [] = []"
| "serve p s ((now, tick, req) # rest) =
     (case onRequest p now tick req s of
        (out, s') \<Rightarrow>
          (out, s') # serve p (s'\<lparr>set_status := set_status s, set_headers := set_headers s\<rparr>) rest)"

section \<open>Reading decimal numerals\<close>

text \<open>
  The value of a decimal numeral with an optional minus sign, used to say what the
  strings produced by \<open>toString\<close> denote.
\<close>

definition digitValue :: "char \<Rightarrow> nat" where
  "digitValue c = (case map_of (zip ''0123456789'' [0, 1, 2, 3, 4, 5, 6, 7, 8, 9]) c of None \<Rightarrow> 0 | Some d \<Rightarrow> d)"

definition fromDigits :: "string \<Rightarrow> nat" where
  "fromDigits cs = foldl (\<lambda>a c. 10 * a + digitValue c) 0 cs"

definition parseDecimal :: "string \<Rightarrow> int" where
  "parseDecimal cs =
     (case cs of
        [] \<Rightarrow> 0
      | c # rest \<Rightarrow> if c = CHR ''-'' then - int (fromDigits rest) else int (fromDigits cs))"

section \<open>Sample configurations, requests and states\<close>

definition demo_options :: RateLimitOptions where
  "demo_options =
     \<lparr>opt_maxRequests = Some 3, opt_duration = Some 1000, opt_keyGenerator = None,
      opt_errorResponse = None, opt_skip = None\<rparr>"

definition demo_plugin :: plugin where
  "demo_plugin = projr (rateLimitPlugin demo_options)"

definition long_window_options :: RateLimitOptions where
  "long_window_options =
     \<lparr>opt_maxRequests = Some 3, opt_duration = Some 7200000, opt_keyGenerator = None,
      opt_errorResponse = None, opt_skip = None\<rparr>"

definition trusting_plugin :: plugin where
  "trusting_plugin =
     projr (rateLimitPlugin
       \<lparr>opt_maxRequests = Some 3, opt_duration = Some 1000, opt_keyGenerator = None,
        opt_errorResponse = None,
        opt_skip = Some (\<lambda>request key. Inr (key = ''1.2.3.4''))\<rparr>)"

definition failing_key_plugin :: plugin where
  "failing_key_plugin =
     projr (rateLimitPlugin
       \<lparr>opt_maxRequests = Some 3, opt_duration = Some 1000,
        opt_keyGenerator = Some (\<lambda>request. Inl (Thrown ''no key'')),
        opt_errorResponse = None, opt_skip = None\<rparr>)"

definition failing_skip_plugin :: plugin where
  "failing_skip_plugin =
     projr (rateLimitPlugin
       \<lparr>opt_maxRequests = Some 3, opt_duration = Some 1000, opt_keyGenerator = None,
        opt_errorResponse = None,
        opt_skip = Some (\<lambda>request key. Inl (Thrown ''no verdict''))\<rparr>)"

definition demo_request :: request where
  "demo_request = \<lparr>headers = [(''accept'', ''*/*''), (''x-real-ip'', ''1.2.3.4'')], url = ''/''\<rparr>"

definition forwarded_for_request :: request where
  "forwarded_for_request =
     \<lparr>headers = [(''accept'', ''*/*''), (''x-forwarded-for'', ''1.2.3.4'')], url = ''/''\<rparr>"

definition store_with :: "(string \<times> entry \<times> int) list \<Rightarrow> DefaultRateLimitContext" where
  "store_with items = \<lparr>cache = \<lparr>lru_max = 10000, lru_ttl = 3600000, lru_items = items\<rparr>\<rparr>"

definition state_with :: "(string \<times> entry \<times> int) list \<Rightarrow> state" where
  "state_with items =
     \<lparr>rlContext = store_with items, set_status = None, set_headers = Map.empty,
      logger = \<lparr>logLevel = Some Info, logged = []\<rparr>\<rparr>"

definition demo_state :: state where
  "demo_state = state_with []"

definition counted_state :: "int \<Rightarrow> state" where
  "counted_state c = state_with [(''1.2.3.4'', \<lparr>count = c, reset = 1000\<rparr>, 0)]"

text \<open>
  The requests of the scenario of the specification: four at time 0 and one at time
  1001, all from the same client. The cache's clock runs at the same pace as the wall
  clock, from an arbitrary origin \<open>c\<close>.
\<close>

definition scenario :: "int \<Rightarrow> (int \<times> int \<times> request) list" where
  "scenario c =
     [(0, c, demo_request), (0, c, demo_request), (0, c, demo_request), (0, c, demo_request),
      (1001, c + 1001, demo_request)]"

definition long_window_plugin :: plugin where
  "long_window_plugin = projr (rateLimitPlugin long_window_options)"

section \<open>Facts about the model\<close>

lemmas store_defs =
  context_get_def context_set_def LRUCache_get_def LRUCache_set_def isStale_def removeKey_def

lemma ceilDiv1000_ceiling: "ceilDiv1000 x = \<lceil>real_of_int x / 1000\<rceil>"
proof -
  have "\<lceil>real_of_int x / real_of_int 1000\<rceil> = - ((- x) div 1000)"
    by (rule ceiling_divide_eq_div)
  then show ?thesis by (simp add: ceilDiv1000_def)
qed

lemma isSafeInteger_ceilDiv1000: "isSafeInteger x \<Longrightarrow> isSafeInteger (ceilDiv1000 x)"
  unfolding isSafeInteger_def ceilDiv1000_def by simp arith

lemma isSafeInteger_max0: "isSafeInteger x \<Longrightarrow> isSafeInteger (max 0 x)"
  unfolding isSafeInteger_def by simp

subsection \<open>The strings of \<open>toString\<close> are decimal numerals\<close>

lemma digitValue_digitChar: "d < 10 \<Longrightarrow> digitValue (digitChar d) = d"
proof -
  assume "d < 10"
  then have "d \<in> {0, 1, 2, 3, 4, 5, 6, 7, 8, 9}" by auto
  then show ?thesis by (auto simp: digitValue_def digitChar_def)
qed

lemma digitChar_not_minus: "d < 10 \<Longrightarrow> digitChar d \<noteq> CHR ''-''"
proof -
  assume "d < 10"
  then have "d \<in> {0, 1, 2, 3, 4, 5, 6, 7, 8, 9}" by auto
  then show ?thesis by (auto simp: digitChar_def)
qed

lemma fromDigits_snoc: "fromDigits (cs @ [c]) = 10 * fromDigits cs + digitValue c"
  by (simp add: fromDigits_def)

lemma fromDigits_digits: "fromDigits (digits n) = n"
proof (induction n rule: digits.induct)
  case (1 n)
  show ?case
  proof (cases "n < 10")
    case True
    then show ?thesis by (simp add: digits.simps[of n] fromDigits_def digitValue_digitChar)
  next
    case False
    with 1 have "fromDigits (digits (n div 10)) = n div 10" by simp
    with False show ?thesis
      by (simp add: digits.simps[of n] fromDigits_snoc digitValue_digitChar)
  qed
qed

lemma digits_nonempty: "digits n \<noteq> []"
  by (subst digits.simps) simp

lemma hd_digits_not_minus: "hd (digits n) \<noteq> CHR ''-''"
proof (induction n rule: digits.induct)
  case (1 n)
  show ?case
  proof (cases "n < 10")
    case True
    then show ?thesis by (simp add: digits.simps[of n] digitChar_not_minus)
  next
    case False
    with 1 have "hd (digits (n div 10)) \<noteq> CHR ''-''" by simp
    with False show ?thesis
      by (simp add: digits.simps[of n] digits_nonempty)
  qed
qed

lemma parseDecimal_toString: "parseDecimal (toString i) = i"
proof (cases "i < 0")
  case True
  then show ?thesis by (simp add: parseDecimal_def toString_def fromDigits_digits)
next
  case False
  obtain c cs where d: "digits (nat i) = c # cs"
    using digits_nonempty[of "nat i"] by (cases "digits (nat i)") auto
  have "c \<noteq> CHR ''-''" using hd_digits_not_minus[of "nat i"] d by simp
  moreover have "fromDigits (c # cs) = nat i" using fromDigits_digits[of "nat i"] d by simp
  ultimately show ?thesis using False d by (simp add: parseDecimal_def toString_def)
qed

subsection \<open>The store answers what was written to it\<close>

lemma context_get_after_set:
  assumes "lru_ttl (cache ctx) = 0 \<or> tick' - tick \<le> lru_ttl (cache ctx)"
  shows "fst (context_get (context_set ctx key v tick) key tick') = Some v"
  using assms by (auto simp: store_defs)

lemma context_get_ttl:
  "context_get ctx key tick = (r, ctx') \<Longrightarrow> lru_ttl (cache ctx') = lru_ttl (cache ctx)"
  by (auto simp: context_get_def LRUCache_get_def split: option.splits prod.splits if_splits)

lemma context_set_ttl:
  "lru_ttl (cache (context_set ctx key v tick)) = lru_ttl (cache ctx)"
  by (auto simp: context_set_def LRUCache_set_def)

lemma context_set_inject:
  "context_set ctx key v tick = context_set ctx key v' tick \<Longrightarrow> v = v'"
  by (auto simp: context_set_def LRUCache_set_def split: if_splits
           dest!: arg_cong[where f = "\<lambda>c. lru_items (cache c)"])

subsection \<open>Evaluating the samples\<close>

lemma demo_plugin_fields:
  "maxRequests demo_plugin = 3"
  "duration demo_plugin = 1000"
  "errorResponse demo_plugin = Fixed ''Too many requests''"
  "keyGenerator demo_plugin = (\<lambda>r. Inr (defaultKeyGenerator r))"
  "skip demo_plugin = (\<lambda>_ _. Inr False)"
  "initial_context demo_plugin = store_with []"
  by (simp_all add: demo_plugin_def demo_options_def rateLimitPlugin_def
        DefaultRateLimitContext_new_def LRUCache_new_def orDefault_def store_with_def)

lemmas string_defs =
  defaultKeyGenerator_def forwardingNames_def toLowerCase_def trim_def lowerChar_def
  isWhiteSpace_def

lemma demo_key: "keyGenerator demo_plugin demo_request = Inr ''1.2.3.4''"
  by (simp add: demo_plugin_fields demo_request_def string_defs)

lemma demo_skip: "skip demo_plugin demo_request ''1.2.3.4'' = Inr False"
  by (simp add: demo_plugin_fields)

lemma get_store_with:
  "context_get (store_with items) k t =
     (case map_of items k of
        None \<Rightarrow> (None, store_with items)
      | Some (v, start) \<Rightarrow>
          if t - start > 3600000 then (None, store_with (removeKey k items))
          else (Some v, store_with ((k, v, start) # removeKey k items)))"
  by (simp add: store_defs store_with_def split: option.splits)

lemma set_store_with:
  "context_set (store_with items) k v t =
     store_with ((k, v, t) #
       (if map_of items k = None \<and> 10000 \<le> length items then butlast items
        else removeKey k items))"
  by (simp add: store_defs store_with_def)

lemmas eval_simps =
  onRequest_def Let_def Logger_log_def shouldLog_def demo_key demo_skip demo_plugin_fields(1-3)
  get_store_with set_store_with removeKey_def toString_def digits.simps digitChar_def
  ceilDiv1000_def state_with_def demo_state_def counted_state_def

lemma demo_first:
  "onRequest demo_plugin 0 0 demo_request demo_state =
     (Proceed,
      (state_with [(''1.2.3.4'', \<lparr>count = 1, reset = 1000\<rparr>, 0)])
        \<lparr>set_headers := [''RateLimit-Limit'' \<mapsto> ''3'', ''RateLimit-Remaining'' \<mapsto> ''2'',
                          ''RateLimit-Reset'' \<mapsto> ''1'']\<rparr>)"
  by (simp add: eval_simps)

lemma demo_third:
  "onRequest demo_plugin 0 0 demo_request (counted_state 2) =
     (Proceed,
      (state_with [(''1.2.3.4'', \<lparr>count = 3, reset = 1000\<rparr>, 0)])
        \<lparr>set_headers := [''RateLimit-Limit'' \<mapsto> ''3'', ''RateLimit-Remaining'' \<mapsto> ''0'',
                          ''RateLimit-Reset'' \<mapsto> ''1'']\<rparr>)"
  by (simp add: eval_simps)

lemma demo_fourth:
  "onRequest demo_plugin 0 0 demo_request (counted_state 3) =
     (Respond ''Too many requests'',
      (state_with [(''1.2.3.4'', \<lparr>count = 4, reset = 1000\<rparr>, 0)])
        \<lparr>set_status := Some 429,
         set_headers := [''RateLimit-Limit'' \<mapsto> ''3'', ''RateLimit-Remaining'' \<mapsto> ''0'',
                          ''RateLimit-Reset'' \<mapsto> ''1'', ''Retry-After'' \<mapsto> ''1''],
         logger := \<lparr>logLevel = Some Info,
                     logged = [(Warn, ''Rate limit exceeded for key: 1.2.3.4'')]\<rparr>\<rparr>)"
  by (simp add: eval_simps)

lemma demo_at_reset:
  "onRequest demo_plugin 1000 1000 demo_request (counted_state 1) =
     (Proceed,
      (state_with [(''1.2.3.4'', \<lparr>count = 2, reset = 1000\<rparr>, 1000)])
        \<lparr>set_headers := [''RateLimit-Limit'' \<mapsto> ''3'', ''RateLimit-Remaining'' \<mapsto> ''1'',
                          ''RateLimit-Reset'' \<mapsto> ''1'']\<rparr>)"
  by (simp add: eval_simps)

lemma demo_get_fresh:
  "context_get (rlContext demo_state) ''1.2.3.4'' 0 = (None, store_with [])"
  by (simp add: demo_state_def state_with_def get_store_with)

lemma demo_get_counted:
  "context_get (rlContext (counted_state c)) ''1.2.3.4'' 0 =
     (Some \<lparr>count = c, reset = 1000\<rparr>,
      store_with [(''1.2.3.4'', \<lparr>count = c, reset = 1000\<rparr>, 0)])"
  by (simp add: counted_state_def state_with_def get_store_with removeKey_def)

lemma demo_get_counted_1000:
  "context_get (rlContext (counted_state c)) ''1.2.3.4'' 1000 =
     (Some \<lparr>count = c, reset = 1000\<rparr>,
      store_with [(''1.2.3.4'', \<lparr>count = c, reset = 1000\<rparr>, 0)])"
  by (simp add: counted_state_def state_with_def get_store_with removeKey_def)

subsection \<open>Requests of one client inside one window\<close>

text \<open>
  While the stored window is live (\<open>now\<close> is at most its \<open>reset\<close>) and the item has
  not aged out of the cache, every request of the client raises the stored count by
  one, and request number \<open>i\<close> is admitted exactly when the count it reaches is at most
  \<open>maxRequests\<close>. The count is not clamped: it follows the number of requests.
\<close>

lemma onRequest_in_window:
  assumes kg: "keyGenerator p req = Inr key" and sk: "skip p req key = Inr False"
    and live: "fst (context_get (rlContext s) key tick) = Some e"
    and inw: "now \<le> reset e"
    and res: "onRequest p now tick req s = (out, s')"
  shows "(out = Proceed \<longleftrightarrow> count e + 1 \<le> maxRequests p)
       \<and> rlContext s' = context_set (snd (context_get (rlContext s) key tick)) key
                           (e\<lparr>count := count e + 1\<rparr>) tick
       \<and> logLevel (logger s') = logLevel (logger s)"
proof -
  obtain ctx1 where got: "context_get (rlContext s) key tick = (Some e, ctx1)"
    using live by (cases "context_get (rlContext s) key tick") simp
  show ?thesis
    using res inw
    by (auto simp: onRequest_def kg sk got Let_def Logger_log_def
             split: option.splits if_splits errorResponse_t.splits sum.splits)
qed

lemma serve_in_window:
  assumes evs: "\<forall>(now, tick, r) \<in> set evs.
                  keyGenerator p r = Inr key \<and> skip p r key = Inr False
                  \<and> now \<le> reset e \<and> T - lru_ttl (cache (rlContext s)) \<le> tick \<and> tick \<le> T"
    and live: "\<forall>tick' \<le> T. fst (context_get (rlContext s) key tick') = Some e"
    and i: "i < length evs"
  shows "(fst (serve p s evs ! i) = Proceed \<longleftrightarrow> count e + int i + 1 \<le> maxRequests p)
       \<and> (\<forall>tick' \<le> T. fst (context_get (rlContext (snd (serve p s evs ! i))) key tick')
                          = Some (e\<lparr>count := count e + int i + 1\<rparr>))"
  using evs live i
proof (induction evs arbitrary: s e i)
  case Nil
  then show ?case by simp
next
  case (Cons ev rest)
  obtain now tick r where ev: "ev = (now, tick, r)" by (cases ev) auto
  obtain out s' where res: "onRequest p now tick r s = (out, s')"
    by (cases "onRequest p now tick r s") auto
  let ?ttl = "lru_ttl (cache (rlContext s))"
  let ?e' = "e\<lparr>count := count e + 1\<rparr>"
  let ?s'' = "s'\<lparr>set_status := set_status s, set_headers := set_headers s\<rparr>"
  from Cons.prems(1) ev have kg: "keyGenerator p r = Inr key" and sk: "skip p r key = Inr False"
    and inw: "now \<le> reset e" and lo: "T - ?ttl \<le> tick" and hi: "tick \<le> T"
    by auto
  from Cons.prems(2) hi have live0: "fst (context_get (rlContext s) key tick) = Some e"
    by simp
  note step = onRequest_in_window [OF kg sk live0 inw res]
  have ttl1: "lru_ttl (cache (snd (context_get (rlContext s) key tick))) = ?ttl"
    by (rule context_get_ttl [of _ _ _ "fst (context_get (rlContext s) key tick)"]) simp
  have ttl': "lru_ttl (cache (rlContext s')) = ?ttl"
    using step by (simp add: context_set_ttl ttl1)
  have live': "\<forall>tick' \<le> T. fst (context_get (rlContext s') key tick') = Some ?e'"
  proof (intro allI impI)
    fix tick' :: int
    assume "tick' \<le> T"
    with lo have "tick' - tick \<le> ?ttl" by simp
    then show "fst (context_get (rlContext s') key tick') = Some ?e'"
      using step by (simp add: context_get_after_set ttl1)
  qed
  have unfold: "serve p s (ev # rest) = (out, s') # serve p ?s'' rest"
    by (simp add: ev res)
  show ?case
  proof (cases i)
    case 0
    with step live' show ?thesis by (simp add: unfold)
  next
    case (Suc j)
    with Cons.prems(3) have j: "j < length rest" by simp
    have evs': "\<forall>(now, tick, r) \<in> set rest.
                  keyGenerator p r = Inr key \<and> skip p r key = Inr False
                  \<and> now \<le> reset ?e' \<and> T - lru_ttl (cache (rlContext ?s'')) \<le> tick \<and> tick \<le> T"
      using Cons.prems(1) by (auto simp: ttl')
    have live'': "\<forall>tick' \<le> T. fst (context_get (rlContext ?s'') key tick') = Some ?e'"
      using live' by simp
    from Cons.IH [OF evs' live'' j]
    show ?thesis by (simp add: unfold Suc add.assoc)
  qed
qed

subsection \<open>A window longer than the store's time to live\<close>

text \<open>
  With a window of two hours, a client that comes back after one hour and one
  millisecond finds its counter gone, although its window has not ended: the count
  starts again at 1.
\<close>

lemma long_window_count_lost:
  "duration long_window_plugin = 7200000
   \<and> map fst (serve long_window_plugin demo_state
                [(0, 0, demo_request), (3600001, 3600001, demo_request)]) = [Proceed, Proceed]
   \<and> rlContext (snd (serve long_window_plugin demo_state
                [(0, 0, demo_request), (3600001, 3600001, demo_request)] ! 0))
       = store_with [(''1.2.3.4'', \<lparr>count = 1, reset = 7200000\<rparr>, 0)]
   \<and> rlContext (snd (serve long_window_plugin demo_state
                [(0, 0, demo_request), (3600001, 3600001, demo_request)] ! 1))
       = store_with [(''1.2.3.4'', \<lparr>count = 1, reset = 10800001\<rparr>, 3600001)]"
proof -
  have f: "maxRequests long_window_plugin = 3" "duration long_window_plugin = 7200000"
    "errorResponse long_window_plugin = Fixed ''Too many requests''"
    "keyGenerator long_window_plugin = (\<lambda>r. Inr (defaultKeyGenerator r))"
    "skip long_window_plugin = (\<lambda>_ _. Inr False)"
    by (simp_all add: long_window_plugin_def long_window_options_def rateLimitPlugin_def
        DefaultRateLimitContext_new_def LRUCache_new_def orDefault_def)
  have kg: "keyGenerator long_window_plugin demo_request = Inr ''1.2.3.4''"
    by (simp add: f demo_request_def string_defs)
  have sk: "skip long_window_plugin demo_request ''1.2.3.4'' = Inr False"
    by (simp add: f)
  show ?thesis
    by (simp add: onRequest_def Let_def kg sk f(1-3) get_store_with set_store_with removeKey_def
          toString_def digits.simps digitChar_def ceilDiv1000_def state_with_def demo_state_def)
qed

section \<open>The claims\<close>

text \<open>
  C1. Window accounting on every request that is not skipped: when the store has no
  entry for the derived key, or \<open>now\<close> is strictly greater than the \<open>reset\<close> of the
  stored entry, a fresh window is started with count 0 and \<open>reset = now + duration\<close>;
  the count is then incremented by 1, the entry is written to the store, and the request
  is admitted (the hook returns nothing) if and only if the resulting count is at most
  \<open>maxRequests\<close>.
\<close>

theorem window_accounting:
  assumes kg: "keyGenerator p req = Inr key" and sk: "skip p req key = Inr False"
    and got: "context_get (rlContext s) key tick = (existing, ctx1)"
    and res: "onRequest p now tick req s = (out, s')"
  shows "\<exists>e'. rlContext s' = context_set ctx1 key e' tick
           \<and> (if existing = None \<or> (\<exists>e. existing = Some e \<and> now > reset e)
               then e' = \<lparr>count = 0 + 1, reset = now + duration p\<rparr>
               else \<exists>e. existing = Some e \<and> e' = e\<lparr>count := count e + 1\<rparr>)
           \<and> (out = Proceed \<longleftrightarrow> count e' \<le> maxRequests p)"
  using res
  by (auto simp: onRequest_def kg sk got Let_def
           split: option.splits if_splits errorResponse_t.splits sum.splits)

theorem window_accounting_witness:
  "keyGenerator demo_plugin demo_request = Inr ''1.2.3.4''
   \<and> skip demo_plugin demo_request ''1.2.3.4'' = Inr False
   \<and> rlContext (snd (onRequest demo_plugin 0 0 demo_request demo_state))
       = context_set (store_with []) ''1.2.3.4'' \<lparr>count = 1, reset = 1000\<rparr> 0
   \<and> fst (onRequest demo_plugin 0 0 demo_request demo_state) = Proceed"
proof -
  have res: "onRequest demo_plugin 0 0 demo_request demo_state
               = (fst (onRequest demo_plugin 0 0 demo_request demo_state),
                  snd (onRequest demo_plugin 0 0 demo_request demo_state))"
    by simp
  from window_accounting [OF demo_key demo_skip demo_get_fresh res]
  show ?thesis
    by (auto simp: demo_key demo_skip demo_plugin_fields(1,2))
qed

text \<open>
  C2. Limit boundary and no clamping: the request that brings the count of the window
  to exactly \<open>maxRequests\<close> is admitted; every request that brings it above
  \<open>maxRequests\<close> is rejected with status 429 and a \<open>Retry-After\<close> header; the count of
  a live window goes up by one on every request, also beyond \<open>maxRequests\<close>; and the
  incremented counter is written to the store whatever the verdict, so that the store
  answers it afterwards.
\<close>

theorem limit_boundary_no_clamp:
  assumes kg: "keyGenerator p req = Inr key" and sk: "skip p req key = Inr False"
    and got: "context_get (rlContext s) key tick = (existing, ctx1)"
    and res: "onRequest p now tick req s = (out, s')"
  shows "\<exists>e'. rlContext s' = context_set ctx1 key e' tick
           \<and> (\<forall>tick'. lru_ttl (cache (rlContext s)) = 0
                        \<or> tick' - tick \<le> lru_ttl (cache (rlContext s))
                  \<longrightarrow> fst (context_get (rlContext s') key tick') = Some e')
           \<and> (count e' = maxRequests p \<longrightarrow> out = Proceed \<and> set_status s' = set_status s)
           \<and> (count e' > maxRequests p \<longrightarrow>
                  out \<noteq> Proceed \<and> set_status s' = Some 429
                  \<and> set_headers s' ''Retry-After''
                      = Some (toString \<lceil>real_of_int (duration p) / 1000\<rceil>))
           \<and> (\<forall>e. existing = Some e \<and> now \<le> reset e
                  \<longrightarrow> count e' = count e + 1 \<and> reset e' = reset e)"
proof -
  have ttl: "lru_ttl (cache ctx1) = lru_ttl (cache (rlContext s))"
    using got by (rule context_get_ttl)
  show ?thesis
    using res
    by (auto simp: onRequest_def kg sk got Let_def context_get_after_set ttl ceilDiv1000_ceiling
             split: option.splits if_splits errorResponse_t.splits sum.splits)
qed

theorem limit_boundary_no_clamp_witness:
  "fst (onRequest demo_plugin 0 0 demo_request (counted_state 2)) = Proceed
   \<and> set_status (snd (onRequest demo_plugin 0 0 demo_request (counted_state 2))) = None
   \<and> fst (onRequest demo_plugin 0 0 demo_request (counted_state 3)) \<noteq> Proceed
   \<and> set_status (snd (onRequest demo_plugin 0 0 demo_request (counted_state 3))) = Some 429
   \<and> set_headers (snd (onRequest demo_plugin 0 0 demo_request (counted_state 3))) ''Retry-After''
       = Some ''1''
   \<and> fst (context_get (rlContext (snd (onRequest demo_plugin 0 0 demo_request (counted_state 3))))
            ''1.2.3.4'' 5) = Some \<lparr>count = 4, reset = 1000\<rparr>"
proof -
  let ?r2 = "onRequest demo_plugin 0 0 demo_request (counted_state 2)"
  let ?r3 = "onRequest demo_plugin 0 0 demo_request (counted_state 3)"
  have ttl: "lru_ttl (cache (rlContext (counted_state c))) = 3600000" for c
    by (simp add: counted_state_def state_with_def store_with_def)
  have st: "set_status (counted_state c) = None" for c
    by (simp add: counted_state_def state_with_def)
  have one: "toString 1 = ''1''"
    by (simp add: toString_def digits.simps digitChar_def)
  have res2: "?r2 = (fst ?r2, snd ?r2)" and res3: "?r3 = (fst ?r3, snd ?r3)"
    by simp_all
  have two: "fst ?r2 = Proceed \<and> set_status (snd ?r2) = None"
    using limit_boundary_no_clamp [OF demo_key demo_skip demo_get_counted res2]
    by (auto simp: demo_plugin_fields(1) st)
  have three: "fst ?r3 \<noteq> Proceed \<and> set_status (snd ?r3) = Some 429
                 \<and> set_headers (snd ?r3) ''Retry-After'' = Some ''1''
                 \<and> fst (context_get (rlContext (snd ?r3)) ''1.2.3.4'' 5)
                     = Some \<lparr>count = 4, reset = 1000\<rparr>"
    using limit_boundary_no_clamp [OF demo_key demo_skip demo_get_counted res3]
  proof (elim exE conjE)
    fix e3
    assume readback: "\<forall>tick'. lru_ttl (cache (rlContext (counted_state 3))) = 0
                           \<or> tick' - 0 \<le> lru_ttl (cache (rlContext (counted_state 3)))
                   \<longrightarrow> fst (context_get (rlContext (snd ?r3)) ''1.2.3.4'' tick') = Some e3"
      and over: "count e3 > maxRequests demo_plugin \<longrightarrow>
                  fst ?r3 \<noteq> Proceed \<and> set_status (snd ?r3) = Some 429
                  \<and> set_headers (snd ?r3) ''Retry-After''
                      = Some (toString \<lceil>real_of_int (duration demo_plugin) / 1000\<rceil>)"
      and c3: "\<forall>e. Some \<lparr>count = 3, reset = 1000\<rparr> = Some e \<and> 0 \<le> reset e
                \<longrightarrow> count e3 = count e + 1 \<and> reset e3 = reset e"
    from c3 have e3: "count e3 = 4" "reset e3 = 1000" by simp_all
    then have e3_eq: "e3 = \<lparr>count = 4, reset = 1000\<rparr>" by (cases e3) simp
    from readback have "fst (context_get (rlContext (snd ?r3)) ''1.2.3.4'' 5) = Some e3"
      by (simp add: ttl)
    with over e3 e3_eq show ?thesis
      by (simp add: demo_plugin_fields(1,2) one)
  qed
  with two show ?thesis by simp
qed

text \<open>
  C4. Header postcondition: on every request that is not skipped, admitted or not, the
  response headers \<open>RateLimit-Limit\<close>, \<open>RateLimit-Remaining\<close> and \<open>RateLimit-Reset\<close> are
  set to the decimal strings of \<open>maxRequests\<close>, \<open>max(0, maxRequests - count)\<close> and
  \<open>ceil(reset / 1000)\<close>, where \<open>count\<close> and \<open>reset\<close> are those of the entry written to
  the store; \<open>Retry-After\<close> is set to the decimal string of \<open>ceil(duration / 1000)\<close> when
  the request is rejected and is left as it was when the request is admitted. This is
  stated for safe integers: the limit, the duration, the time, the stored counter and
  what the hook computes from them are of magnitude at most \<open>2^53 - 1\<close>, and then so is
  every value printed into a header.
\<close>

theorem header_postcondition:
  assumes kg: "keyGenerator p req = Inr key" and sk: "skip p req key = Inr False"
    and got: "context_get (rlContext s) key tick = (existing, ctx1)"
    and res: "onRequest p now tick req s = (out, s')"
    and safe_config: "isSafeInteger (maxRequests p)" "isSafeInteger (duration p)"
    and safe_fresh: "isSafeInteger now" "isSafeInteger (now + duration p)"
                    "isSafeInteger (maxRequests p - 1)"
    and safe_stored: "\<forall>e. existing = Some e \<longrightarrow>
                        isSafeInteger (count e) \<and> isSafeInteger (reset e)
                        \<and> isSafeInteger (count e + 1)
                        \<and> isSafeInteger (maxRequests p - (count e + 1))"
  shows "\<exists>e'. rlContext s' = context_set ctx1 key e' tick
           \<and> isSafeInteger (count e') \<and> isSafeInteger (reset e')
           \<and> isSafeInteger (maxRequests p - count e')
           \<and> isSafeInteger (max 0 (maxRequests p - count e'))
           \<and> isSafeInteger \<lceil>real_of_int (reset e') / 1000\<rceil>
           \<and> isSafeInteger \<lceil>real_of_int (duration p) / 1000\<rceil>
           \<and> set_headers s' ''RateLimit-Limit'' = Some (toString (maxRequests p))
           \<and> set_headers s' ''RateLimit-Remaining''
               = Some (toString (max 0 (maxRequests p - count e')))
           \<and> set_headers s' ''RateLimit-Reset''
               = Some (toString \<lceil>real_of_int (reset e') / 1000\<rceil>)
           \<and> (if out = Proceed
               then set_headers s' ''Retry-After'' = set_headers s ''Retry-After''
               else set_headers s' ''Retry-After''
                      = Some (toString \<lceil>real_of_int (duration p) / 1000\<rceil>))
           \<and> parseDecimal (toString (maxRequests p)) = maxRequests p
           \<and> parseDecimal (toString (max 0 (maxRequests p - count e')))
               = max 0 (maxRequests p - count e')
           \<and> parseDecimal (toString \<lceil>real_of_int (reset e') / 1000\<rceil>)
               = \<lceil>real_of_int (reset e') / 1000\<rceil>
           \<and> parseDecimal (toString \<lceil>real_of_int (duration p) / 1000\<rceil>)
               = \<lceil>real_of_int (duration p) / 1000\<rceil>"
proof -
  let ?fresh = "\<lparr>count = 1, reset = now + duration p\<rparr>"
  define e' where "e' = (case existing of
                           None \<Rightarrow> ?fresh
                         | Some e \<Rightarrow> if now > reset e then ?fresh else e\<lparr>count := count e + 1\<rparr>)"
  have written: "rlContext s' = context_set ctx1 key e' tick"
    and hdrs: "set_headers s' ''RateLimit-Limit'' = Some (toString (maxRequests p))"
      "set_headers s' ''RateLimit-Remaining'' = Some (toString (max 0 (maxRequests p - count e')))"
      "set_headers s' ''RateLimit-Reset'' = Some (toString (ceilDiv1000 (reset e')))"
    and retry: "if out = Proceed
                then set_headers s' ''Retry-After'' = set_headers s ''Retry-After''
                else set_headers s' ''Retry-After'' = Some (toString (ceilDiv1000 (duration p)))"
    using res
    by (auto simp: onRequest_def kg sk got Let_def e'_def
             split: option.splits if_splits errorResponse_t.splits sum.splits)
  have safe: "isSafeInteger (count e')" "isSafeInteger (reset e')"
    "isSafeInteger (maxRequests p - count e')"
    using safe_fresh safe_stored
    by (auto simp: e'_def isSafeInteger_def split: option.splits)
  have printed: "isSafeInteger (max 0 (maxRequests p - count e'))"
    "isSafeInteger (ceilDiv1000 (reset e'))" "isSafeInteger (ceilDiv1000 (duration p))"
    using safe safe_config by (simp_all add: isSafeInteger_max0 isSafeInteger_ceilDiv1000)
  show ?thesis
    using written hdrs retry safe printed
    by (intro exI [of _ e']) (simp add: ceilDiv1000_ceiling [symmetric] parseDecimal_toString)
qed

theorem header_postcondition_witness:
  "isSafeInteger (maxRequests demo_plugin) \<and> isSafeInteger (duration demo_plugin)
   \<and> isSafeInteger 0 \<and> isSafeInteger (0 + duration demo_plugin)
   \<and> isSafeInteger (maxRequests demo_plugin - 1)
   \<and> isSafeInteger (count \<lparr>count = 3, reset = 1000\<rparr>)
   \<and> isSafeInteger (reset \<lparr>count = 3, reset = 1000\<rparr>)
   \<and> isSafeInteger (count \<lparr>count = 3, reset = 1000\<rparr> + 1)
   \<and> isSafeInteger (maxRequests demo_plugin - (count \<lparr>count = 3, reset = 1000\<rparr> + 1))
   \<and> set_headers (snd (onRequest demo_plugin 0 0 demo_request (counted_state 3))) ''RateLimit-Limit''
     = Some ''3''
   \<and> set_headers (snd (onRequest demo_plugin 0 0 demo_request (counted_state 3)))
       ''RateLimit-Remaining'' = Some ''0''
   \<and> set_headers (snd (onRequest demo_plugin 0 0 demo_request (counted_state 3)))
       ''RateLimit-Reset'' = Some ''1''
   \<and> set_headers (snd (onRequest demo_plugin 0 0 demo_request (counted_state 3)))
       ''Retry-After'' = Some ''1''
   \<and> fst (onRequest demo_plugin 0 0 demo_request (counted_state 3)) \<noteq> Proceed"
proof -
  let ?r3 = "onRequest demo_plugin 0 0 demo_request (counted_state 3)"
  have res3: "?r3 = (fst ?r3, snd ?r3)" by simp
  have ctx: "rlContext (snd ?r3)
               = context_set (store_with [(''1.2.3.4'', \<lparr>count = 3, reset = 1000\<rparr>, 0)])
                   ''1.2.3.4'' \<lparr>count = 4, reset = 1000\<rparr> 0"
    by (simp add: demo_fourth state_with_def set_store_with removeKey_def)
  have out: "fst ?r3 \<noteq> Proceed" by (simp add: demo_fourth)
  have str: "toString 3 = ''3''" "toString 0 = ''0''" "toString 1 = ''1''"
    by (simp_all add: toString_def digits.simps digitChar_def)
  have c1: "isSafeInteger (maxRequests demo_plugin)" and c2: "isSafeInteger (duration demo_plugin)"
    and f1: "isSafeInteger 0" and f2: "isSafeInteger (0 + duration demo_plugin)"
    and f3: "isSafeInteger (maxRequests demo_plugin - 1)"
    by (simp_all add: demo_plugin_fields(1,2) isSafeInteger_def)
  have st: "isSafeInteger (count \<lparr>count = 3, reset = 1000\<rparr>)
            \<and> isSafeInteger (reset \<lparr>count = 3, reset = 1000\<rparr>)
            \<and> isSafeInteger (count \<lparr>count = 3, reset = 1000\<rparr> + 1)
            \<and> isSafeInteger (maxRequests demo_plugin - (count \<lparr>count = 3, reset = 1000\<rparr> + 1))"
    by (simp add: demo_plugin_fields(1) isSafeInteger_def)
  then have st': "\<forall>e. Some \<lparr>count = 3, reset = 1000\<rparr> = Some e \<longrightarrow>
                        isSafeInteger (count e) \<and> isSafeInteger (reset e)
                        \<and> isSafeInteger (count e + 1)
                        \<and> isSafeInteger (maxRequests demo_plugin - (count e + 1))"
    by simp
  from header_postcondition [OF demo_key demo_skip demo_get_counted res3 c1 c2 f1 f2 f3 st']
  have "set_headers (snd ?r3) ''RateLimit-Limit'' = Some ''3''
        \<and> set_headers (snd ?r3) ''RateLimit-Remaining'' = Some ''0''
        \<and> set_headers (snd ?r3) ''RateLimit-Reset'' = Some ''1''
        \<and> set_headers (snd ?r3) ''Retry-After'' = Some ''1''"
  proof (elim exE conjE)
    fix e'
    assume w: "rlContext (snd ?r3)
                 = context_set (store_with [(''1.2.3.4'', \<lparr>count = 3, reset = 1000\<rparr>, 0)])
                     ''1.2.3.4'' e' 0"
      and h1: "set_headers (snd ?r3) ''RateLimit-Limit'' = Some (toString (maxRequests demo_plugin))"
      and h2: "set_headers (snd ?r3) ''RateLimit-Remaining''
                 = Some (toString (max 0 (maxRequests demo_plugin - count e')))"
      and h3: "set_headers (snd ?r3) ''RateLimit-Reset''
                 = Some (toString \<lceil>real_of_int (reset e') / 1000\<rceil>)"
      and h4: "if fst ?r3 = Proceed
               then set_headers (snd ?r3) ''Retry-After''
                      = set_headers (counted_state 3) ''Retry-After''
               else set_headers (snd ?r3) ''Retry-After''
                      = Some (toString \<lceil>real_of_int (duration demo_plugin) / 1000\<rceil>)"
    from w ctx have "e' = \<lparr>count = 4, reset = 1000\<rparr>"
      by (intro context_set_inject [symmetric]) simp
    with h1 h2 h3 h4 out show ?thesis
      by (simp add: demo_plugin_fields(1,2) str)
  qed
  with c1 c2 f1 f2 f3 st out show ?thesis by simp
qed

text \<open>
  C5. Skip bypass: when the skip predicate answers true, the hook returns nothing (the
  request proceeds) and leaves everything as it was: the store, with the recency order
  and ages of its items, so that it has been neither read nor written; the response
  status and headers; and the log.
\<close>

theorem skip_bypass:
  assumes "keyGenerator p req = Inr key" and "skip p req key = Inr True"
  shows "onRequest p now tick req s = (Proceed, s)"
  using assms by (simp add: onRequest_def)

theorem skip_bypass_witness:
  "keyGenerator trusting_plugin demo_request = Inr ''1.2.3.4''
   \<and> skip trusting_plugin demo_request ''1.2.3.4'' = Inr True
   \<and> onRequest trusting_plugin 0 0 demo_request (counted_state 7) = (Proceed, counted_state 7)"
proof -
  have kg: "keyGenerator trusting_plugin demo_request = Inr ''1.2.3.4''"
    by (simp add: trusting_plugin_def rateLimitPlugin_def DefaultRateLimitContext_new_def
          LRUCache_new_def orDefault_def demo_request_def string_defs)
  have sk: "skip trusting_plugin demo_request ''1.2.3.4'' = Inr True"
    by (simp add: trusting_plugin_def rateLimitPlugin_def DefaultRateLimitContext_new_def
          LRUCache_new_def orDefault_def)
  from skip_bypass [OF kg sk] kg sk show ?thesis by simp
qed

text \<open>
  C7. Upstream failure: when the key generator throws, or the skip predicate throws, the
  hook ends with that very exception and leaves the store, the response status and
  headers and the log as they were.
\<close>

theorem upstream_failure:
  "(keyGenerator p req = Inl e \<longrightarrow> onRequest p now tick req s = (Threw e, s))
   \<and> (keyGenerator p req = Inr key \<and> skip p req key = Inl e
        \<longrightarrow> onRequest p now tick req s = (Threw e, s))"
  by (simp add: onRequest_def)

theorem upstream_failure_witness:
  "keyGenerator failing_key_plugin demo_request = Inl (Thrown ''no key'')
   \<and> onRequest failing_key_plugin 0 0 demo_request (counted_state 7)
       = (Threw (Thrown ''no key''), counted_state 7)
   \<and> keyGenerator failing_skip_plugin demo_request = Inr ''1.2.3.4''
   \<and> skip failing_skip_plugin demo_request ''1.2.3.4'' = Inl (Thrown ''no verdict'')
   \<and> onRequest failing_skip_plugin 0 0 demo_request (counted_state 7)
       = (Threw (Thrown ''no verdict''), counted_state 7)"
proof -
  have kg1: "keyGenerator failing_key_plugin demo_request = Inl (Thrown ''no key'')"
    by (simp add: failing_key_plugin_def rateLimitPlugin_def DefaultRateLimitContext_new_def
          LRUCache_new_def orDefault_def)
  have kg2: "keyGenerator failing_skip_plugin demo_request = Inr ''1.2.3.4''"
    by (simp add: failing_skip_plugin_def rateLimitPlugin_def DefaultRateLimitContext_new_def
          LRUCache_new_def orDefault_def demo_request_def string_defs)
  have sk2: "skip failing_skip_plugin demo_request ''1.2.3.4'' = Inl (Thrown ''no verdict'')"
    by (simp add: failing_skip_plugin_def rateLimitPlugin_def DefaultRateLimitContext_new_def
          LRUCache_new_def orDefault_def)
  from upstream_failure [of failing_key_plugin demo_request "Thrown ''no key''" 0 0
                            "counted_state 7"] kg1
  have a: "onRequest failing_key_plugin 0 0 demo_request (counted_state 7)
             = (Threw (Thrown ''no key''), counted_state 7)"
    by simp
  from upstream_failure [of failing_skip_plugin demo_request "Thrown ''no verdict''" 0 0
                            "counted_state 7" "''1.2.3.4''"] kg2 sk2
  have b: "onRequest failing_skip_plugin 0 0 demo_request (counted_state 7)
             = (Threw (Thrown ''no verdict''), counted_state 7)"
    by simp
  from a b kg1 kg2 sk2 show ?thesis by simp
qed

text \<open>
  C6, as the specification states it: a window is the half-open interval from its start
  to its start plus the duration, so a request arriving exactly at the \<open>reset\<close> time of
  the stored counter starts a fresh window with count 1. The code compares with
  \<open>now > entry.reset\<close>: after a first request at time 0 with a duration of 1000, a
  request at time 1000 is counted in the old window, whose count becomes 2 and whose
  \<open>reset\<close> stays 1000.
\<close>

theorem request_at_reset_counts_in_old_window:
  "rlContext (snd (onRequest demo_plugin 0 0 demo_request demo_state))
     = rlContext (counted_state 1)
   \<and> reset \<lparr>count = 1, reset = 1000\<rparr> = 1000
   \<and> rlContext (snd (onRequest demo_plugin 1000 1000 demo_request (counted_state 1)))
       = store_with [(''1.2.3.4'', \<lparr>count = 2, reset = 1000\<rparr>, 1000)]
   \<and> rlContext (snd (onRequest demo_plugin 1000 1000 demo_request (counted_state 1)))
       \<noteq> store_with [(''1.2.3.4'', \<lparr>count = 1, reset = 2000\<rparr>, 1000)]"
proof -
  have a: "rlContext (snd (onRequest demo_plugin 0 0 demo_request demo_state))
             = rlContext (counted_state 1)"
    by (simp add: demo_first) (simp add: counted_state_def state_with_def)
  have b: "rlContext (snd (onRequest demo_plugin 1000 1000 demo_request (counted_state 1)))
             = store_with [(''1.2.3.4'', \<lparr>count = 2, reset = 1000\<rparr>, 1000)]"
    by (simp add: demo_at_reset) (simp add: state_with_def)
  have c: "store_with [(''1.2.3.4'', \<lparr>count = 2, reset = 1000\<rparr>, 1000)]
             \<noteq> store_with [(''1.2.3.4'', \<lparr>count = 1, reset = 2000\<rparr>, 1000)]"
    by (simp add: store_with_def)
  from a b c show ?thesis by simp
qed

text \<open>
  C6, amended: a window is the closed interval from its start to its start plus the
  duration. A request arriving at a time up to and including the \<open>reset\<close> time of the
  stored counter is counted in that window (the count goes up by one, \<open>reset\<close> is
  kept); only a request arriving strictly after it starts a fresh window, whose count
  becomes 1.
\<close>

theorem window_boundary_inclusive:
  assumes kg: "keyGenerator p req = Inr key" and sk: "skip p req key = Inr False"
    and got: "context_get (rlContext s) key tick = (Some e, ctx1)"
    and res: "onRequest p now tick req s = (out, s')"
  shows "(now \<le> reset e \<longrightarrow>
            rlContext s' = context_set ctx1 key (e\<lparr>count := count e + 1\<rparr>) tick)
       \<and> (now > reset e \<longrightarrow>
            rlContext s' = context_set ctx1 key \<lparr>count = 1, reset = now + duration p\<rparr> tick)"
  using res
  by (auto simp: onRequest_def kg sk got Let_def
           split: option.splits if_splits errorResponse_t.splits sum.splits)

theorem window_boundary_inclusive_witness:
  "rlContext (snd (onRequest demo_plugin 1000 1000 demo_request (counted_state 1)))
     = context_set (store_with [(''1.2.3.4'', \<lparr>count = 1, reset = 1000\<rparr>, 0)])
         ''1.2.3.4'' \<lparr>count = 2, reset = 1000\<rparr> 1000
   \<and> rlContext (snd (onRequest demo_plugin 1001 1001 demo_request (counted_state 1)))
     = context_set (store_with [(''1.2.3.4'', \<lparr>count = 1, reset = 1000\<rparr>, 0)])
         ''1.2.3.4'' \<lparr>count = 1, reset = 2001\<rparr> 1001"
proof -
  let ?a = "onRequest demo_plugin 1000 1000 demo_request (counted_state 1)"
  let ?b = "onRequest demo_plugin 1001 1001 demo_request (counted_state 1)"
  have ra: "?a = (fst ?a, snd ?a)" and rb: "?b = (fst ?b, snd ?b)" by simp_all
  have got: "context_get (rlContext (counted_state 1)) ''1.2.3.4'' 1001 =
               (Some \<lparr>count = 1, reset = 1000\<rparr>,
                store_with [(''1.2.3.4'', \<lparr>count = 1, reset = 1000\<rparr>, 0)])"
    by (simp add: counted_state_def state_with_def get_store_with removeKey_def)
  from window_boundary_inclusive [OF demo_key demo_skip demo_get_counted_1000 ra]
       window_boundary_inclusive [OF demo_key demo_skip got rb]
  show ?thesis by (simp add: demo_plugin_fields(2))
qed

text \<open>
  C3, as the specification states it: a configuration whose store time to live is
  smaller than the window duration is rejected when the plugin is constructed, so that
  every accepted configuration has a time to live of at least the window duration. The
  code accepts a window of two hours over its store of one hour.
\<close>

theorem long_window_accepted:
  "opt_duration long_window_options = Some 7200000
   \<and> \<not> isl (rateLimitPlugin long_window_options)
   \<and> duration (projr (rateLimitPlugin long_window_options)) = 7200000
   \<and> lru_ttl (cache (initial_context (projr (rateLimitPlugin long_window_options)))) = 3600000
   \<and> lru_ttl (cache (initial_context (projr (rateLimitPlugin long_window_options))))
       < duration (projr (rateLimitPlugin long_window_options))"
  by (simp add: long_window_options_def rateLimitPlugin_def DefaultRateLimitContext_new_def
        LRUCache_new_def orDefault_def)

text \<open>
  C3, amended: the construction of the plugin checks nothing about the window duration.
  Every configuration is accepted; the store holds at most 10000 entries and its time to
  live is the constant 3600000 ms, whatever the configuration says; so the time to live
  is at least the window duration exactly for the configurations whose window duration
  (60000 ms when not given) is at most 3600000 ms.
\<close>

theorem construction_checks_nothing:
  "\<exists>p. rateLimitPlugin opts = Inr p
       \<and> lru_ttl (cache (initial_context p)) = 3600000
       \<and> lru_max (cache (initial_context p)) = 10000
       \<and> duration p = orDefault (opt_duration opts) 60000
       \<and> (duration p \<le> lru_ttl (cache (initial_context p)) \<longleftrightarrow> duration p \<le> 3600000)"
  by (simp add: rateLimitPlugin_def DefaultRateLimitContext_new_def LRUCache_new_def)

theorem construction_checks_nothing_witness:
  "rateLimitPlugin long_window_options = Inr long_window_plugin
   \<and> lru_ttl (cache (initial_context long_window_plugin)) = 3600000
   \<and> duration long_window_plugin = 7200000
   \<and> rateLimitPlugin demo_options = Inr demo_plugin
   \<and> duration demo_plugin \<le> lru_ttl (cache (initial_context demo_plugin))"
proof -
  from construction_checks_nothing [of long_window_options]
  have a: "rateLimitPlugin long_window_options = Inr long_window_plugin
           \<and> lru_ttl (cache (initial_context long_window_plugin)) = 3600000
           \<and> duration long_window_plugin = 7200000"
    by (auto simp: long_window_plugin_def long_window_options_def orDefault_def)
  from construction_checks_nothing [of demo_options]
  have b: "rateLimitPlugin demo_options = Inr demo_plugin
           \<and> duration demo_plugin \<le> lru_ttl (cache (initial_context demo_plugin))"
    by (auto simp: demo_plugin_def demo_options_def orDefault_def)
  from a b show ?thesis by simp
qed

text \<open>
  C8. The scenario with \<open>maxRequests = 3\<close> and a window of 1000 ms: four requests of
  one client at time 0 are admitted, admitted, admitted and rejected; the fourth
  response has \<open>RateLimit-Remaining\<close> "0", status 429 and \<open>Retry-After\<close> "1"; a fifth
  request of the client at time 1001 is admitted with \<open>RateLimit-Remaining\<close> "2".
\<close>

theorem concrete_scenario:
  "rateLimitPlugin demo_options = Inr demo_plugin
   \<and> maxRequests demo_plugin = 3 \<and> duration demo_plugin = 1000
   \<and> rlContext demo_state = initial_context demo_plugin
   \<and> map fst (serve demo_plugin demo_state (scenario c))
       = [Proceed, Proceed, Proceed, Respond ''Too many requests'', Proceed]
   \<and> set_headers (snd (serve demo_plugin demo_state (scenario c) ! 3)) ''RateLimit-Remaining''
       = Some ''0''
   \<and> set_status (snd (serve demo_plugin demo_state (scenario c) ! 3)) = Some 429
   \<and> set_headers (snd (serve demo_plugin demo_state (scenario c) ! 3)) ''Retry-After''
       = Some ''1''
   \<and> set_headers (snd (serve demo_plugin demo_state (scenario c) ! 4)) ''RateLimit-Remaining''
       = Some ''2''
   \<and> set_status (snd (serve demo_plugin demo_state (scenario c) ! 4)) = set_status demo_state"
proof -
  have made: "rateLimitPlugin demo_options = Inr demo_plugin"
    by (simp add: demo_plugin_def rateLimitPlugin_def DefaultRateLimitContext_new_def
          LRUCache_new_def)
  have run: "serve demo_plugin demo_state (scenario c) =
    [(Proceed,
      (state_with [(''1.2.3.4'', \<lparr>count = 1, reset = 1000\<rparr>, c)])
        \<lparr>set_headers := [''RateLimit-Limit'' \<mapsto> ''3'', ''RateLimit-Remaining'' \<mapsto> ''2'',
                          ''RateLimit-Reset'' \<mapsto> ''1'']\<rparr>),
     (Proceed,
      (state_with [(''1.2.3.4'', \<lparr>count = 2, reset = 1000\<rparr>, c)])
        \<lparr>set_headers := [''RateLimit-Limit'' \<mapsto> ''3'', ''RateLimit-Remaining'' \<mapsto> ''1'',
                          ''RateLimit-Reset'' \<mapsto> ''1'']\<rparr>),
     (Proceed,
      (state_with [(''1.2.3.4'', \<lparr>count = 3, reset = 1000\<rparr>, c)])
        \<lparr>set_headers := [''RateLimit-Limit'' \<mapsto> ''3'', ''RateLimit-Remaining'' \<mapsto> ''0'',
                          ''RateLimit-Reset'' \<mapsto> ''1'']\<rparr>),
     (Respond ''Too many requests'',
      (state_with [(''1.2.3.4'', \<lparr>count = 4, reset = 1000\<rparr>, c)])
        \<lparr>set_status := Some 429,
         set_headers := [''RateLimit-Limit'' \<mapsto> ''3'', ''RateLimit-Remaining'' \<mapsto> ''0'',
                          ''RateLimit-Reset'' \<mapsto> ''1'', ''Retry-After'' \<mapsto> ''1''],
         logger := \<lparr>logLevel = Some Info,
                     logged = [(Warn, ''Rate limit exceeded for key: 1.2.3.4'')]\<rparr>\<rparr>),
     (Proceed,
      (state_with [(''1.2.3.4'', \<lparr>count = 1, reset = 2001\<rparr>, c + 1001)])
        \<lparr>set_headers := [''RateLimit-Limit'' \<mapsto> ''3'', ''RateLimit-Remaining'' \<mapsto> ''2'',
                          ''RateLimit-Reset'' \<mapsto> ''3''],
         logger := \<lparr>logLevel = Some Info,
                     logged = [(Warn, ''Rate limit exceeded for key: 1.2.3.4'')]\<rparr>\<rparr>)]"
    by (simp add: scenario_def eval_simps)
  show ?thesis
    unfolding run
    by (simp add: made demo_plugin_fields demo_state_def state_with_def)
qed

text \<open>
  C10. The default key generator takes the client key only from a header whose trimmed,
  lower-cased name is \<open>x-forwareded-for\<close>, \<open>x-real-ip\<close> or \<open>forwarded\<close>; so for
  every request whose headers are the standard \<open>x-forwarded-for\<close> and others that are
  none of these three, it answers the sentinel key \<open>unknown\<close>.
\<close>

theorem defaultKeyGenerator_names:
  "(defaultKeyGenerator r \<noteq> ''unknown'' \<longrightarrow>
      (\<exists>(k, v) \<in> set (headers r).
          toLowerCase (trim k) \<in> {''x-forwareded-for'', ''x-real-ip'', ''forwarded''}
          \<and> defaultKeyGenerator r = v))
   \<and> ((\<forall>(k, v) \<in> set (headers r).
          toLowerCase (trim k) = ''x-forwarded-for''
          \<or> toLowerCase (trim k) \<notin> {''x-forwareded-for'', ''x-real-ip'', ''forwarded''})
       \<longrightarrow> defaultKeyGenerator r = ''unknown'')"
proof (intro conjI impI)
  assume ne: "defaultKeyGenerator r \<noteq> ''unknown''"
  let ?m = "filter (\<lambda>(key, _). toLowerCase (trim key) \<in> set forwardingNames) (headers r)"
  from ne obtain k v rest where m: "?m = (k, v) # rest"
    by (cases ?m) (auto simp: defaultKeyGenerator_def)
  then have "(k, v) \<in> set ?m" by simp
  then have "(k, v) \<in> set (headers r)" and "toLowerCase (trim k) \<in> set forwardingNames"
    by auto
  moreover have "defaultKeyGenerator r = v"
    using m by (simp add: defaultKeyGenerator_def)
  ultimately show "\<exists>(k, v) \<in> set (headers r).
          toLowerCase (trim k) \<in> {''x-forwareded-for'', ''x-real-ip'', ''forwarded''}
          \<and> defaultKeyGenerator r = v"
    by (auto simp: forwardingNames_def)
next
  assume a: "\<forall>(k, v) \<in> set (headers r).
          toLowerCase (trim k) = ''x-forwarded-for''
          \<or> toLowerCase (trim k) \<notin> {''x-forwareded-for'', ''x-real-ip'', ''forwarded''}"
  have "filter (\<lambda>(key, _). toLowerCase (trim key) \<in> set forwardingNames) (headers r) = []"
    unfolding filter_empty_conv using a by (auto simp: forwardingNames_def)
  then show "defaultKeyGenerator r = ''unknown''"
    by (simp add: defaultKeyGenerator_def)
qed

theorem defaultKeyGenerator_names_witness:
  "(''x-forwarded-for'', ''1.2.3.4'') \<in> set (headers forwarded_for_request)
   \<and> defaultKeyGenerator forwarded_for_request = ''unknown''
   \<and> (''x-real-ip'', ''1.2.3.4'') \<in> set (headers demo_request)
   \<and> defaultKeyGenerator demo_request = ''1.2.3.4''"
proof -
  have h: "\<forall>(k, v) \<in> set (headers forwarded_for_request).
             toLowerCase (trim k) = ''x-forwarded-for''
             \<or> toLowerCase (trim k) \<notin> {''x-forwareded-for'', ''x-real-ip'', ''forwarded''}"
    by (simp add: forwarded_for_request_def toLowerCase_def trim_def lowerChar_def
          isWhiteSpace_def)
  from defaultKeyGenerator_names [of forwarded_for_request] h
  have a: "defaultKeyGenerator forwarded_for_request = ''unknown''" by blast
  have ne: "defaultKeyGenerator demo_request \<noteq> ''unknown''"
    by (simp add: demo_request_def string_defs)
  from defaultKeyGenerator_names [of demo_request] ne
  have "\<exists>(k, v) \<in> set (headers demo_request).
          toLowerCase (trim k) \<in> {''x-forwareded-for'', ''x-real-ip'', ''forwarded''}
          \<and> defaultKeyGenerator demo_request = v"
    by blast
  then have b: "defaultKeyGenerator demo_request = ''1.2.3.4''"
    by (simp add: demo_request_def toLowerCase_def trim_def lowerChar_def isWhiteSpace_def)
  from a b show ?thesis
    by (simp add: forwarded_for_request_def demo_request_def)
qed

end
